theory Spec2Isabelle
  imports Main "HOL-Library.Sublist"
begin

section \<open>The AI-Guided SaaS tool/resource server\<close>

text \<open>
  A shallow embedding of the four request handlers that the class
  \<open>AIGuidedSaaSMCPServer\<close> registers in its constructor, and of the start-up
  code that follows the class.  A handler that returns an object is modelled by
  \<open>Inr\<close> of a record with the same fields, a handler that throws by \<open>Inl\<close>
  of the thrown error.  Strings are byte lists (the UTF-8 text of the source file).
\<close>

subsection \<open>Values that arrive in a request\<close>

text \<open>
  The value of an argument is whatever JSON the caller sent; the handlers never
  check it against the input schema.  The handlers look at a number only through
  its truth value and its conversion to a string, so \<open>JNum\<close> carries the
  number's decimal rendering (\<open>Number.prototype.toString\<close>); the only falsy
  numbers JSON can carry are \<open>0\<close> and \<open>-0\<close>, both rendered as \<open>0\<close>.
  An object keeps its own keys in insertion order.
\<close>

datatype json =
    JNull
  | JBool bool
  | JNum string
  | JStr string
  | JArr "json list"
  | JObj "(string \<times> json) list"

text \<open>
  \<open>request.params.arguments\<close> is optional: \<open>None\<close> is \<open>undefined\<close>.
  A present mapping is an object, kept like \<open>JObj\<close> keeps one; reading a
  property finds the entry with that key, and \<open>undefined\<close> (\<open>None\<close>) when
  the object has none.
\<close>

type_synonym arguments = "(string \<times> json) list option"

datatype error =
    Error string
  | TypeError string

text \<open>The truth value JavaScript gives a value (what \<open>||\<close> tests).\<close>

fun to_boolean :: "json \<Rightarrow> bool" where
  "to_boolean JNull = False"
| "to_boolean (JBool b) = b"
| "to_boolean (JNum n) = (n \<noteq> ''0'')"
| "to_boolean (JStr s) = (s \<noteq> [])"
| "to_boolean (JArr xs) = True"
| "to_boolean (JObj kvs) = True"

text \<open>
  \<open>Array.prototype.join\<close> on the converted elements: the first element whose
  conversion throws decides the outcome, otherwise the strings are put together with
  commas between them.
\<close>

fun join :: "(error + string) list \<Rightarrow> error + string" where
  "join [] = Inr []"
| "join [r] = r"
| "join (r # rs) =
     (case r of
        Inl e \<Rightarrow> Inl e
      | Inr s \<Rightarrow> (case join rs of Inl e \<Rightarrow> Inl e | Inr t \<Rightarrow> Inr (s @ '','' @ t)))"

text \<open>
  The conversion a template literal applies to an interpolated value.  An array is
  joined element by element, \<open>null\<close> elements giving the empty string.  A plain
  object is converted by \<open>Object.prototype.toString\<close>, unless it has a key
  \<open>toString\<close> of its own: a JSON value is never callable, the inherited
  \<open>valueOf\<close> returns the object itself, and the conversion throws.
\<close>

fun to_string :: "json \<Rightarrow> error + string" where
  "to_string JNull = Inr ''null''"
| "to_string (JBool b) = Inr (if b then ''true'' else ''false'')"
| "to_string (JNum n) = Inr n"
| "to_string (JStr s) = Inr s"
| "to_string (JArr xs) =
     join (map (\<lambda>x. if x = JNull then Inr [] else to_string x) xs)"
| "to_string (JObj kvs) =
     (if ''toString'' \<in> set (map fst kvs)
      then Inl (TypeError ''Cannot convert object to primitive value'')
      else Inr ''[object Object]'')"

text \<open>\<open>args?.key\<close>: \<open>undefined\<close> when there are no arguments at all.\<close>

definition get_arg :: "arguments \<Rightarrow> string \<Rightarrow> json option" where
  "get_arg args key = (case args of None \<Rightarrow> None | Some kvs \<Rightarrow> map_of kvs key)"

text \<open>\<open>v || d\<close> for a string literal \<open>d\<close>.\<close>

definition or_default :: "json option \<Rightarrow> string \<Rightarrow> json" where
  "or_default v d =
     (case v of
        None \<Rightarrow> JStr d
      | Some j \<Rightarrow> if to_boolean j then j else JStr d)"

subsection \<open>Descriptors and responses\<close>

record property =
  type :: string
  items :: "string option"
  description :: string

record input_schema =
  type :: string
  properties :: "(string \<times> property) list"
  required :: "string list"

record tool =
  name :: string
  description :: string
  inputSchema :: input_schema

record list_tools_result =
  tools :: "tool list"

record content_block =
  type :: string
  text' :: string

record call_tool_result =
  content :: "content_block list"

record resource =
  uri :: string
  name :: string
  description :: string
  mimeType :: string

record list_resources_result =
  resources :: "resource list"

record resource_contents =
  uri :: string
  mimeType :: string
  text' :: string

record read_resource_result =
  contents :: "resource_contents list"

subsection \<open>Listing the tools\<close>

text \<open>
  The handler takes no parameter: whatever request reaches it is ignored.  The
  \<open>items\<close> of a property is the type of the array's elements, when it has one.
\<close>

definition list_tools :: "'req \<Rightarrow> list_tools_result" where
  "list_tools request = \<lparr>tools = [
     \<lparr>tool.name = ''analyze-code'',
      description = ''Analyze code quality and provide improvement suggestions'',
      inputSchema = \<lparr>input_schema.type = ''object'',
        properties = [
          (''code'', \<lparr>property.type = ''string'', items = None,
             description = ''Code to analyze''\<rparr>),
          (''language'', \<lparr>property.type = ''string'', items = None,
             description = ''Programming language''\<rparr>)],
        required = [''code'', ''language'']\<rparr>\<rparr>,
     \<lparr>tool.name = ''generate-tests'',
      description = ''Generate unit tests for provided code'',
      inputSchema = \<lparr>input_schema.type = ''object'',
        properties = [
          (''code'', \<lparr>property.type = ''string'', items = None,
             description = ''Code to generate tests for''\<rparr>),
          (''framework'', \<lparr>property.type = ''string'', items = None,
             description = ''Testing framework (jest, mocha, etc.)''\<rparr>)],
        required = [''code'']\<rparr>\<rparr>,
     \<lparr>tool.name = ''optimize-performance'',
      description = ''Analyze and suggest performance optimizations'',
      inputSchema = \<lparr>input_schema.type = ''object'',
        properties = [
          (''code'', \<lparr>property.type = ''string'', items = None,
             description = ''Code to optimize''\<rparr>),
          (''metrics'', \<lparr>property.type = ''array'', items = Some ''string'',
             description = ''Specific metrics to focus on''\<rparr>)],
        required = [''code'']\<rparr>\<rparr>]\<rparr>"

subsection \<open>Calling a tool\<close>

definition analyze_report :: string where
  "analyze_report =
     '' code...'' @ [CHR 0x0A, CHR 0x0A] @
     ''Code Quality Report:'' @ [CHR 0x0A] @
     ''- Structure: Good'' @ [CHR 0x0A] @
     ''- Readability: Excellent'' @ [CHR 0x0A] @
     ''- Suggestions: Consider adding type annotations''"

definition generated_tests :: string where
  "generated_tests =
     '' tests:'' @ [CHR 0x0A] @
     ''```javascript'' @ [CHR 0x0A] @
     ''describe('YourFunction', () => {'' @ [CHR 0x0A] @
     ''  it('should work correctly', () => {'' @ [CHR 0x0A] @
     ''    expect(yourFunction()).toBe(expected);'' @ [CHR 0x0A] @
     ''  });'' @ [CHR 0x0A] @
     ''});'' @ [CHR 0x0A] @
     ''```''"

text \<open>The bytes after \<open>O(n\<close> are the four the source file has there.\<close>

definition performance_analysis :: string where
  "performance_analysis =
     ''Performance Analysis:'' @ [CHR 0x0A] @
     ''- Current complexity: O(n'' @ [CHR 0xC3, CHR 0x82, CHR 0xC2, CHR 0xB2] @ '')'' @
       [CHR 0x0A] @
     ''- Suggested optimization: Use Map for O(1) lookups'' @ [CHR 0x0A] @
     ''- Potential improvement: 70% faster execution''"

definition text_result :: "string \<Rightarrow> call_tool_result" where
  "text_result t = \<lparr>content = [\<lparr>content_block.type = ''text'', text' = t\<rparr>]\<rparr>"

text \<open>
  The \<open>switch\<close> on the tool's name.  Building the template literal is the only
  step that can throw before the \<open>return\<close>; the \<open>default\<close> branch throws.
\<close>

definition call_tool :: "string \<Rightarrow> arguments \<Rightarrow> error + call_tool_result" where
  "call_tool tool_name args =
     (if tool_name = ''analyze-code'' then
        (case to_string (or_default (get_arg args ''language'') ''unknown'') of
           Inl e \<Rightarrow> Inl e
         | Inr language \<Rightarrow> Inr (text_result (''Analyzing '' @ language @ analyze_report)))
      else if tool_name = ''generate-tests'' then
        (let framework = or_default (get_arg args ''framework'') ''jest'' in
         case to_string framework of
           Inl e \<Rightarrow> Inl e
         | Inr fw \<Rightarrow> Inr (text_result (''Generated '' @ fw @ generated_tests)))
      else if tool_name = ''optimize-performance'' then
        Inr (text_result performance_analysis)
      else Inl (Error (''Unknown tool: '' @ tool_name)))"

subsection \<open>Listing and reading the resources\<close>

definition list_resources :: "'req \<Rightarrow> list_resources_result" where
  "list_resources request = \<lparr>resources = [
     \<lparr>resource.uri = ''saas://docs/best-practices'',
      name = ''Best Practices Guide'',
      description = ''Comprehensive guide for SaaS development best practices'',
      mimeType = ''text/markdown''\<rparr>,
     \<lparr>resource.uri = ''saas://templates/api'',
      name = ''API Templates'',
      description = ''Ready-to-use API endpoint templates'',
      mimeType = ''application/json''\<rparr>]\<rparr>"

definition best_practices :: string where
  "best_practices =
     ''# SaaS Best Practices'' @ [CHR 0x0A, CHR 0x0A] @
     ''1. **Security First**: Always validate input'' @ [CHR 0x0A] @
     ''2. **Scalability**: Design for growth'' @ [CHR 0x0A] @
     ''3. **Testing**: Maintain >80% coverage''"

text \<open>
  What \<open>JSON.stringify\<close> with an indentation of two gives for the literal
  object of the two endpoints: \<open>member\<close> is one line \<open>"key": "value"\<close> at
  its indentation.
\<close>

definition member :: "nat \<Rightarrow> string \<Rightarrow> string \<Rightarrow> string" where
  "member indent key val =
     replicate indent CHR '' '' @ [CHR 0x22] @ key @ [CHR 0x22] @ '': '' @
     [CHR 0x22] @ val @ [CHR 0x22]"

definition endpoint :: "string \<Rightarrow> string \<Rightarrow> string \<Rightarrow> string" where
  "endpoint method path descr =
     ''    {'' @ [CHR 0x0A] @
     member 6 ''method'' method @ '','' @ [CHR 0x0A] @
     member 6 ''path'' path @ '','' @ [CHR 0x0A] @
     member 6 ''description'' descr @ [CHR 0x0A] @
     ''    }''"

definition api_templates :: string where
  "api_templates =
     ''{'' @ [CHR 0x0A] @
     ''  '' @ [CHR 0x22] @ ''endpoints'' @ [CHR 0x22] @ '': ['' @ [CHR 0x0A] @
     endpoint ''GET'' ''/api/users'' ''List users'' @ '','' @ [CHR 0x0A] @
     endpoint ''POST'' ''/api/users'' ''Create user'' @ [CHR 0x0A] @
     ''  ]'' @ [CHR 0x0A] @
     ''}''"

definition read_resource :: "string \<Rightarrow> error + read_resource_result" where
  "read_resource u =
     (if u = ''saas://docs/best-practices'' then
        Inr \<lparr>contents = [\<lparr>resource_contents.uri = u, mimeType = ''text/markdown'',
          text' = best_practices\<rparr>]\<rparr>
      else if u = ''saas://templates/api'' then
        Inr \<lparr>contents = [\<lparr>resource_contents.uri = u, mimeType = ''application/json'',
          text' = api_templates\<rparr>]\<rparr>
      else Inl (Error (''Unknown resource: '' @ u)))"

subsection \<open>Starting the server\<close>

text \<open>
  The script after the class: it builds the server and the one stdio transport,
  starts connecting, and prints three lines while the connection is still being made.
  The \<open>catch\<close> callback runs afterwards, and only when the connection was
  rejected; it is the only place where the script sets an exit status.  What the
  process has printed and whether it has exited is the state; a printed line is the
  list of the values given to \<open>console.log\<close> or \<open>console.error\<close>.
\<close>

datatype console_arg =
    Str string
  | Thrown error

record process =
  stdout :: "console_arg list list"
  stderr :: "console_arg list list"
  exited :: "int option"

definition running :: process where
  "running = \<lparr>stdout = [], stderr = [], exited = None\<rparr>"

definition console_log :: "console_arg list \<Rightarrow> process \<Rightarrow> process" where
  "console_log line p = p\<lparr>stdout := stdout p @ [line]\<rparr>"

definition console_error :: "console_arg list \<Rightarrow> process \<Rightarrow> process" where
  "console_error line p = p\<lparr>stderr := stderr p @ [line]\<rparr>"

definition process_exit :: "int \<Rightarrow> process \<Rightarrow> process" where
  "process_exit code p = p\<lparr>exited := Some code\<rparr>"

text \<open>
  \<open>connect_outcome\<close> is how the promise of \<open>server.connect(transport)\<close>
  settles: \<open>None\<close> when the transport opened, \<open>Some e\<close> when it was rejected
  with \<open>e\<close>.  The first printed line starts with the nine bytes the source file has
  before the server's name.
\<close>

definition startup :: "error option \<Rightarrow> process" where
  "startup connect_outcome =
     (let p = console_log [Str ''Available resources: saas://docs/best-practices, saas://templates/api'']
               (console_log [Str ''Available tools: analyze-code, generate-tests, optimize-performance'']
                 (console_log [Str ([CHR 0xC3, CHR 0xB0, CHR 0xC5, CHR 0xB8, CHR 0xC5, CHR 0xA1,
                                     CHR 0xE2, CHR 0x82, CHR 0xAC] @
                                    '' AI-Guided SaaS MCP Server is running'')]
                   running))
      in case connect_outcome of
           None \<Rightarrow> p
         | Some e \<Rightarrow>
             process_exit 1
               (console_error [Str ''Failed to start AI-Guided SaaS MCP server:'', Thrown e] p))"

text \<open>
  The status the process ends with: the one given to \<open>process.exit\<close>, and
  \<open>0\<close>, the status Node ends a process with when the script never set one and
  the transport has closed.
\<close>

definition exit_status :: "process \<Rightarrow> int" where
  "exit_status p = (case exited p of Some code \<Rightarrow> code | None \<Rightarrow> 0)"

subsection \<open>Values a template literal can convert\<close>

text \<open>
  The values whose conversion does not throw: everything but an object with a key
  \<open>toString\<close> of its own, and an array that holds such an object at some depth.
  Every string, number, boolean and \<open>null\<close> is among them.
\<close>

fun convertible :: "json \<Rightarrow> bool" where
  "convertible (JArr xs) = (\<forall>x \<in> set xs. convertible x)"
| "convertible (JObj kvs) = (''toString'' \<notin> set (map fst kvs))"
| "convertible v = True"

section \<open>Properties\<close>

subsection \<open>Conversion to a string\<close>

lemma join_Inr:
  "(\<And>r. r \<in> set rs \<Longrightarrow> \<exists>s. r = Inr s) \<Longrightarrow> \<exists>s. join rs = Inr s"
proof (induction rs rule: join.induct)
  case 1
  then show ?case by simp
next
  case (2 r)
  then show ?case by simp
next
  case (3 r v va)
  from 3(2)[of r] obtain s where s: "r = Inr s" by auto
  have "\<exists>t. join (v # va) = Inr t"
    using 3(1)[OF s] 3(2) by simp
  then obtain t where "join (v # va) = Inr t" ..
  with s show ?case by simp
qed

lemma to_string_convertible: "convertible v \<Longrightarrow> \<exists>s. to_string v = Inr s"
proof (induction v rule: to_string.induct)
  case (5 xs)
  have "\<exists>s. join (map (\<lambda>x. if x = JNull then Inr [] else to_string x) xs) = Inr s"
  proof (rule join_Inr)
    fix r assume "r \<in> set (map (\<lambda>x. if x = JNull then Inr [] else to_string x) xs)"
    then obtain x where x: "x \<in> set xs" "r = (if x = JNull then Inr [] else to_string x)"
      by auto
    show "\<exists>s. r = Inr s"
    proof (cases "x = JNull")
      case True
      with x show ?thesis by simp
    next
      case False
      with 5 x show ?thesis by simp
    qed
  qed
  then show ?case by simp
qed simp_all

subsection \<open>The catalogs\<close>

lemma tool_names: "map tool.name (tools (list_tools req)) =
  [''analyze-code'', ''generate-tests'', ''optimize-performance'']"
  by (simp add: list_tools_def)

lemma resource_uris: "map resource.uri (resources (list_resources req)) =
  [''saas://docs/best-practices'', ''saas://templates/api'']"
  by (simp add: list_resources_def)

subsection \<open>Unknown names\<close>

text \<open>
  Claim C1.  A call-tool request whose name is not in the tool catalog, and a
  read-resource request whose uri is not in the resource catalog, fail: the handler
  throws \<open>Unknown tool: <name>\<close> or \<open>Unknown resource: <uri>\<close> and produces
  no content.
\<close>

theorem unknown_name_fails:
  "(tool_name \<notin> set (map tool.name (tools (list_tools req))) \<longrightarrow>
      call_tool tool_name args = Inl (Error (''Unknown tool: '' @ tool_name))) \<and>
   (u \<notin> set (map resource.uri (resources (list_resources req'))) \<longrightarrow>
      read_resource u = Inl (Error (''Unknown resource: '' @ u)))"
  by (simp add: tool_names resource_uris call_tool_def read_resource_def)

text \<open>The two failing scenarios of the specification, through the theorem of C1.\<close>

theorem unknown_name_fails_witness:
  "''nonexistent-tool'' \<notin> set (map tool.name (tools (list_tools ()))) \<and>
   call_tool ''nonexistent-tool'' (Some []) = Inl (Error ''Unknown tool: nonexistent-tool'') \<and>
   ''saas://unknown'' \<notin> set (map resource.uri (resources (list_resources ()))) \<and>
   read_resource ''saas://unknown'' = Inl (Error ''Unknown resource: saas://unknown'')"
  using unknown_name_fails [of "''nonexistent-tool''" "()" "Some []" "''saas://unknown''" "()"]
  by (simp add: list_tools_def list_resources_def)

subsection \<open>Required arguments\<close>

text \<open>
  Claim C2 as stated fails: \<open>analyze-code\<close> declares \<open>code\<close> and
  \<open>language\<close> as required, and a request with an empty argument mapping, which
  has neither, is answered with a success.
\<close>

theorem required_arguments_counterexample:
  "set (required (inputSchema (hd (tools (list_tools ()))))) = {''code'', ''language''} \<and>
   tool.name (hd (tools (list_tools ()))) = ''analyze-code'' \<and>
   get_arg (Some []) ''code'' = None \<and>
   get_arg (Some []) ''language'' = None \<and>
   call_tool ''analyze-code'' (Some []) =
     Inr \<lparr>content = [\<lparr>content_block.type = ''text'',
       text' = ''Analyzing unknown'' @ analyze_report\<rparr>]\<rparr>"
  by (simp add: list_tools_def get_arg_def call_tool_def or_default_def text_result_def)

lemma get_arg_remove:
  "k \<noteq> k' \<Longrightarrow> get_arg (Some (filter (\<lambda>kv. fst kv \<noteq> k') kvs)) k = get_arg (Some kvs) k"
  by (induction kvs) (auto simp: get_arg_def)

text \<open>
  Claim C2, amended.  For a registered tool the presence of the required arguments is
  not checked: a request without arguments, or with an empty mapping, succeeds with one
  text block; taking \<open>code\<close> out of a mapping does not change the response; and
  \<open>analyze-code\<close> without \<open>language\<close> reports on \<open>unknown\<close> code.
\<close>

theorem presence_not_checked:
  assumes "tool_name \<in> set (map tool.name (tools (list_tools req)))"
  shows "(\<exists>t. call_tool tool_name None =
            Inr \<lparr>content = [\<lparr>content_block.type = ''text'', text' = t\<rparr>]\<rparr>) \<and>
         (\<exists>t. call_tool tool_name (Some []) =
            Inr \<lparr>content = [\<lparr>content_block.type = ''text'', text' = t\<rparr>]\<rparr>) \<and>
         call_tool tool_name (Some (filter (\<lambda>kv. fst kv \<noteq> ''code'') kvs)) =
           call_tool tool_name (Some kvs) \<and>
         (get_arg args ''language'' = None \<longrightarrow>
            call_tool ''analyze-code'' args =
              Inr \<lparr>content = [\<lparr>content_block.type = ''text'',
                text' = ''Analyzing unknown'' @ analyze_report\<rparr>]\<rparr>)"
proof -
  have none: "\<exists>t. call_tool tool_name None =
            Inr \<lparr>content = [\<lparr>content_block.type = ''text'', text' = t\<rparr>]\<rparr>"
    using assms
    by (auto simp: tool_names call_tool_def get_arg_def or_default_def text_result_def)
  have empty: "\<exists>t. call_tool tool_name (Some []) =
            Inr \<lparr>content = [\<lparr>content_block.type = ''text'', text' = t\<rparr>]\<rparr>"
    using assms
    by (auto simp: tool_names call_tool_def get_arg_def or_default_def text_result_def)
  have code: "call_tool tool_name (Some (filter (\<lambda>kv. fst kv \<noteq> ''code'') kvs)) =
           call_tool tool_name (Some kvs)"
    by (simp add: call_tool_def get_arg_remove)
  have lang: "get_arg args ''language'' = None \<longrightarrow>
            call_tool ''analyze-code'' args =
              Inr \<lparr>content = [\<lparr>content_block.type = ''text'',
                text' = ''Analyzing unknown'' @ analyze_report\<rparr>]\<rparr>"
    by (simp add: call_tool_def or_default_def text_result_def)
  from none empty code lang show ?thesis by blast
qed

text \<open>
  The amended C2 at \<open>generate-tests\<close> with and without \<open>code\<close>, and at
  \<open>analyze-code\<close> without \<open>language\<close>.
\<close>

theorem presence_not_checked_witness:
  "''generate-tests'' \<in> set (map tool.name (tools (list_tools ()))) \<and>
   call_tool ''generate-tests'' (Some [(''framework'', JStr ''mocha'')]) =
     call_tool ''generate-tests'' (Some [(''code'', JStr ''f()''), (''framework'', JStr ''mocha'')]) \<and>
   get_arg (Some [(''code'', JStr ''x'')]) ''language'' = None \<and>
   call_tool ''analyze-code'' (Some [(''code'', JStr ''x'')]) =
     Inr \<lparr>content = [\<lparr>content_block.type = ''text'',
       text' = ''Analyzing unknown'' @ analyze_report\<rparr>]\<rparr>"
proof -
  have h: "''generate-tests'' \<in> set (map tool.name (tools (list_tools ())))"
    by (simp add: list_tools_def)
  have g: "get_arg (Some [(''code'', JStr ''x'')]) ''language'' = None"
    by (simp add: get_arg_def)
  from presence_not_checked [OF h,
      of "[(''code'', JStr ''f()''), (''framework'', JStr ''mocha'')]"
         "Some [(''code'', JStr ''x'')]"] h g
  show ?thesis by simp
qed

subsection \<open>Success of a registered tool\<close>

text \<open>
  Claim C3 as stated fails: the mapping below has both required arguments of
  \<open>analyze-code\<close>, its \<open>language\<close> is an object with a key
  \<open>toString\<close>, and building the report throws instead of returning content.
\<close>

theorem stringification_counterexample:
  "tool.name (hd (tools (list_tools ()))) = ''analyze-code'' \<and>
   required (inputSchema (hd (tools (list_tools ())))) = [''code'', ''language''] \<and>
   get_arg (Some [(''code'', JStr ''x''), (''language'', JObj [(''toString'', JNull)])]) ''code''
     = Some (JStr ''x'') \<and>
   get_arg (Some [(''code'', JStr ''x''), (''language'', JObj [(''toString'', JNull)])]) ''language''
     = Some (JObj [(''toString'', JNull)]) \<and>
   call_tool ''analyze-code''
       (Some [(''code'', JStr ''x''), (''language'', JObj [(''toString'', JNull)])])
     = Inl (TypeError ''Cannot convert object to primitive value'')"
  by (simp add: list_tools_def get_arg_def call_tool_def or_default_def)

lemma or_default_convertible:
  "(\<And>j. v = Some j \<Longrightarrow> convertible j) \<Longrightarrow> \<exists>s. to_string (or_default v d) = Inr s"
  by (cases v) (auto simp: or_default_def intro: to_string_convertible)

text \<open>
  Claim C3, amended.  For every registered tool and every argument mapping that has
  all the required arguments, and in which the value the tool's template interpolates
  (\<open>language\<close> for \<open>analyze-code\<close>, \<open>framework\<close> for
  \<open>generate-tests\<close>) is convertible when it is there, call-tool returns a success
  whose content is one block of type \<open>text\<close>.
\<close>

theorem call_tool_succeeds:
  assumes registered: "tool_name \<in> set (map tool.name (tools (list_tools req)))"
    and present: "\<forall>t \<in> set (tools (list_tools req)). tool.name t = tool_name \<longrightarrow>
                    (\<forall>k \<in> set (required (inputSchema t)). get_arg args k \<noteq> None)"
    and language: "tool_name = ''analyze-code'' \<longrightarrow>
                    (\<forall>v. get_arg args ''language'' = Some v \<longrightarrow> convertible v)"
    and framework: "tool_name = ''generate-tests'' \<longrightarrow>
                    (\<forall>v. get_arg args ''framework'' = Some v \<longrightarrow> convertible v)"
  shows "\<exists>t. call_tool tool_name args =
           Inr \<lparr>content = [\<lparr>content_block.type = ''text'', text' = t\<rparr>]\<rparr>"
proof -
  from registered consider
      "tool_name = ''analyze-code''" | "tool_name = ''generate-tests''"
    | "tool_name = ''optimize-performance''"
    by (auto simp: tool_names)
  then show ?thesis
  proof cases
    case 1
    with language obtain s
      where "to_string (or_default (get_arg args ''language'') ''unknown'') = Inr s"
      using or_default_convertible [of "get_arg args ''language''" "''unknown''"] by auto
    with 1 show ?thesis by (simp add: call_tool_def text_result_def)
  next
    case 2
    with framework obtain s
      where "to_string (or_default (get_arg args ''framework'') ''jest'') = Inr s"
      using or_default_convertible [of "get_arg args ''framework''" "''jest''"] by auto
    with 2 show ?thesis by (simp add: call_tool_def text_result_def)
  next
    case 3
    then show ?thesis by (simp add: call_tool_def text_result_def)
  qed
qed

text \<open>The amended C3 at \<open>generate-tests\<close> with a framework of the caller's.\<close>

theorem call_tool_succeeds_witness:
  "''generate-tests'' \<in> set (map tool.name (tools (list_tools ()))) \<and>
   get_arg (Some [(''code'', JStr ''function add(a,b){return a+b;}''),
                  (''framework'', JStr ''mocha'')]) ''code''
     = Some (JStr ''function add(a,b){return a+b;}'') \<and>
   get_arg (Some [(''code'', JStr ''function add(a,b){return a+b;}''),
                  (''framework'', JStr ''mocha'')]) ''framework''
     = Some (JStr ''mocha'') \<and>
   convertible (JStr ''mocha'') \<and>
   (\<exists>t. call_tool ''generate-tests''
            (Some [(''code'', JStr ''function add(a,b){return a+b;}''),
                   (''framework'', JStr ''mocha'')])
          = Inr \<lparr>content = [\<lparr>content_block.type = ''text'', text' = t\<rparr>]\<rparr>)"
proof -
  let ?args = "Some [(''code'', JStr ''function add(a,b){return a+b;}''),
                     (''framework'', JStr ''mocha'')]"
  have registered: "''generate-tests'' \<in> set (map tool.name (tools (list_tools ())))"
    by (simp add: list_tools_def)
  have present: "\<forall>t \<in> set (tools (list_tools ())). tool.name t = ''generate-tests'' \<longrightarrow>
                   (\<forall>k \<in> set (required (inputSchema t)). get_arg ?args k \<noteq> None)"
    by (simp add: list_tools_def get_arg_def)
  have language: "''generate-tests'' = ''analyze-code'' \<longrightarrow>
                   (\<forall>v. get_arg ?args ''language'' = Some v \<longrightarrow> convertible v)"
    by simp
  have framework: "''generate-tests'' = ''generate-tests'' \<longrightarrow>
                   (\<forall>v. get_arg ?args ''framework'' = Some v \<longrightarrow> convertible v)"
    by (simp add: get_arg_def)
  from call_tool_succeeds [OF registered present language framework] registered
  show ?thesis by (simp add: get_arg_def)
qed

subsection \<open>The tool catalog\<close>

text \<open>
  Claim C4.  Whatever the request, list-tools returns exactly three descriptors, named
  \<open>analyze-code\<close>, \<open>generate-tests\<close> and \<open>optimize-performance\<close>,
  in that order.
\<close>

theorem list_tools_names:
  "map tool.name (tools (list_tools req)) =
     [''analyze-code'', ''generate-tests'', ''optimize-performance''] \<and>
   length (tools (list_tools req)) = 3"
  by (simp add: list_tools_def)

subsection \<open>Reading a listed resource\<close>

text \<open>
  Claim C5.  For every descriptor in the catalog of list-resources, read-resource of
  its uri succeeds with one content block, and the block's mimeType is the one the
  descriptor declares.
\<close>

theorem read_resource_mimeType:
  "\<forall>r \<in> set (resources (list_resources req)).
     \<exists>c. read_resource (resource.uri r) = Inr \<lparr>contents = [c]\<rparr> \<and>
         resource_contents.mimeType c = resource.mimeType r"
  by (simp add: list_resources_def read_resource_def)

text \<open>Claim C5 at the API templates, the second descriptor of the catalog.\<close>

theorem read_resource_mimeType_witness:
  "\<lparr>resource.uri = ''saas://templates/api'', name = ''API Templates'',
     description = ''Ready-to-use API endpoint templates'',
     mimeType = ''application/json''\<rparr> \<in> set (resources (list_resources ())) \<and>
   (\<exists>c. read_resource ''saas://templates/api'' = Inr \<lparr>contents = [c]\<rparr> \<and>
        resource_contents.mimeType c = ''application/json'')"
proof -
  let ?r = "\<lparr>resource.uri = ''saas://templates/api'', name = ''API Templates'',
     description = ''Ready-to-use API endpoint templates'',
     mimeType = ''application/json''\<rparr>"
  have h: "?r \<in> set (resources (list_resources ()))"
    by (simp add: list_resources_def)
  from bspec [OF read_resource_mimeType h] h show ?thesis by simp
qed

subsection \<open>The default framework\<close>

text \<open>
  Claim C6.  A call of \<open>generate-tests\<close> whose arguments have no
  \<open>framework\<close> succeeds, and its text contains \<open>describe(\<close> and the
  default framework \<open>jest\<close>.
\<close>

theorem generate_tests_default_framework:
  assumes "get_arg args ''framework'' = None"
  shows "\<exists>t. call_tool ''generate-tests'' args =
           Inr \<lparr>content = [\<lparr>content_block.type = ''text'', text' = t\<rparr>]\<rparr> \<and>
         sublist ''describe('' t \<and> sublist ''jest'' t"
proof -
  let ?t = "''Generated jest'' @ generated_tests"
  have result: "call_tool ''generate-tests'' args =
      Inr \<lparr>content = [\<lparr>content_block.type = ''text'', text' = ?t\<rparr>]\<rparr>"
    using assms by (simp add: call_tool_def or_default_def text_result_def)
  have "?t = (''Generated jest tests:'' @ [CHR 0x0A] @ ''```javascript'' @ [CHR 0x0A]) @
      ''describe('' @ drop 45 ?t"
    by (simp add: generated_tests_def)
  then have describe: "sublist ''describe('' ?t"
    by (metis sublist_appendI)
  have "?t = ''Generated '' @ ''jest'' @ generated_tests"
    by simp
  then have jest: "sublist ''jest'' ?t"
    by (metis sublist_appendI)
  from result describe jest show ?thesis by blast
qed

text \<open>Claim C6 at the request of the specification's first scenario.\<close>

theorem generate_tests_default_framework_witness:
  "get_arg (Some [(''code'', JStr ''function add(a,b){return a+b;}'')]) ''framework'' = None \<and>
   (\<exists>t. call_tool ''generate-tests'' (Some [(''code'', JStr ''function add(a,b){return a+b;}'')]) =
           Inr \<lparr>content = [\<lparr>content_block.type = ''text'', text' = t\<rparr>]\<rparr> \<and>
         sublist ''describe('' t \<and> sublist ''jest'' t)"
proof -
  have h: "get_arg (Some [(''code'', JStr ''function add(a,b){return a+b;}'')]) ''framework'' = None"
    by (simp add: get_arg_def)
  from generate_tests_default_framework [OF h] h show ?thesis by blast
qed

subsection \<open>The language in the report\<close>

text \<open>
  Claim C7 as stated fails in its general part: the number \<open>0\<close> supplied as
  \<open>language\<close> is converted to \<open>0\<close> by a template literal, but the handler
  replaces it by \<open>unknown\<close>, and the text of the success has no \<open>0\<close> in it.
\<close>

theorem falsy_language_counterexample:
  "get_arg (Some [(''code'', JStr ''x''), (''language'', JNum ''0'')]) ''language''
     = Some (JNum ''0'') \<and>
   to_string (JNum ''0'') = Inr ''0'' \<and>
   call_tool ''analyze-code'' (Some [(''code'', JStr ''x''), (''language'', JNum ''0'')]) =
     Inr \<lparr>content = [\<lparr>content_block.type = ''text'',
       text' = ''Analyzing unknown'' @ analyze_report\<rparr>]\<rparr> \<and>
   \<not> sublist ''0'' (''Analyzing unknown'' @ analyze_report)"
proof -
  have absent: "\<not> sublist ''0'' (''Analyzing unknown'' @ analyze_report)"
    unfolding analyze_report_def by (simp add: sublist_Cons_right)
  then show ?thesis
    by (simp add: get_arg_def call_tool_def or_default_def text_result_def)
qed

text \<open>
  Claim C7, amended.  A call of \<open>analyze-code\<close> with a \<open>language\<close> that is
  a string, or any other value that JavaScript takes for true and a template literal
  can convert, succeeds with a text that contains the supplied language (the empty
  string is replaced by \<open>unknown\<close> and is contained in any text).  A language
  that JavaScript takes for false (\<open>null\<close>, \<open>false\<close>, \<open>0\<close>, the empty
  string) is replaced by \<open>unknown\<close>: the call succeeds with the report on
  \<open>unknown\<close> code.
\<close>

theorem analyze_code_names_language:
  assumes "get_arg args ''language'' = Some v"
  shows "(to_string v = Inr s \<and> (to_boolean v \<or> v = JStr s) \<longrightarrow>
            (\<exists>t. call_tool ''analyze-code'' args =
                   Inr \<lparr>content = [\<lparr>content_block.type = ''text'', text' = t\<rparr>]\<rparr> \<and>
                 sublist s t)) \<and>
         (\<not> to_boolean v \<longrightarrow>
            call_tool ''analyze-code'' args =
              Inr \<lparr>content = [\<lparr>content_block.type = ''text'',
                text' = ''Analyzing unknown'' @ analyze_report\<rparr>]\<rparr>)"
proof -
  have falsy: "call_tool ''analyze-code'' args =
      Inr \<lparr>content = [\<lparr>content_block.type = ''text'',
        text' = ''Analyzing unknown'' @ analyze_report\<rparr>]\<rparr>"
    if "\<not> to_boolean v"
    using that assms by (simp add: call_tool_def or_default_def text_result_def)
  have truthy: "\<exists>t. call_tool ''analyze-code'' args =
        Inr \<lparr>content = [\<lparr>content_block.type = ''text'', text' = t\<rparr>]\<rparr> \<and> sublist s t"
    if conv: "to_string v = Inr s" and kind: "to_boolean v \<or> v = JStr s"
  proof (cases "to_boolean v")
    case True
    with assms conv have "call_tool ''analyze-code'' args =
        Inr \<lparr>content = [\<lparr>content_block.type = ''text'',
          text' = ''Analyzing '' @ s @ analyze_report\<rparr>]\<rparr>"
      by (simp add: call_tool_def or_default_def text_result_def)
    moreover have "sublist s (''Analyzing '' @ s @ analyze_report)"
      by (rule sublist_appendI)
    ultimately show ?thesis by blast
  next
    case False
    with kind have "s = []" by auto
    with falsy [OF False] show ?thesis by simp
  qed
  from falsy truthy show ?thesis by blast
qed

text \<open>
  The amended C7 at the request of the specification's second scenario, whose text
  contains the word \<open>python\<close>, and at a request whose language is \<open>false\<close>.
\<close>

theorem analyze_code_names_language_witness:
  "get_arg (Some [(''code'', JStr ''x''), (''language'', JStr ''python'')]) ''language''
     = Some (JStr ''python'') \<and>
   to_string (JStr ''python'') = Inr ''python'' \<and>
   to_boolean (JStr ''python'') \<and>
   (\<exists>t. call_tool ''analyze-code'' (Some [(''code'', JStr ''x''), (''language'', JStr ''python'')]) =
           Inr \<lparr>content = [\<lparr>content_block.type = ''text'', text' = t\<rparr>]\<rparr> \<and>
        sublist ''python'' t) \<and>
   get_arg (Some [(''code'', JStr ''x''), (''language'', JBool False)]) ''language''
     = Some (JBool False) \<and>
   \<not> to_boolean (JBool False) \<and>
   call_tool ''analyze-code'' (Some [(''code'', JStr ''x''), (''language'', JBool False)]) =
     Inr \<lparr>content = [\<lparr>content_block.type = ''text'',
       text' = ''Analyzing unknown'' @ analyze_report\<rparr>]\<rparr>"
proof -
  have h1: "get_arg (Some [(''code'', JStr ''x''), (''language'', JStr ''python'')]) ''language''
     = Some (JStr ''python'')"
    by (simp add: get_arg_def)
  have h2: "get_arg (Some [(''code'', JStr ''x''), (''language'', JBool False)]) ''language''
     = Some (JBool False)"
    by (simp add: get_arg_def)
  from analyze_code_names_language [OF h1, of "''python''"]
       analyze_code_names_language [OF h2, of "''false''"] h1 h2
  show ?thesis by simp
qed

subsection \<open>Repeated listing\<close>

text \<open>
  Claim C8.  list-tools and list-resources read no state and ignore the request: any
  two invocations return the same catalog, element for element and in the same order.
\<close>

theorem catalogs_deterministic:
  "list_tools first = list_tools second \<and> list_resources first = list_resources second"
  by (simp add: list_tools_def list_resources_def)

subsection \<open>Exit status\<close>

text \<open>
  Claim C9.  When the connection of the stdio transport is rejected, the process
  prints one diagnostic line with the error on the error stream and exits with status
  1; when the transport opened, the script prints nothing there and sets no status, so
  the process ends with status 0.
\<close>

theorem startup_exit_status:
  "exit_status (startup (Some e)) = 1 \<and>
   stderr (startup (Some e)) =
     [[Str ''Failed to start AI-Guided SaaS MCP server:'', Thrown e]] \<and>
   exit_status (startup None) = 0 \<and>
   stderr (startup None) = []"
  by (simp add: startup_def exit_status_def process_exit_def console_error_def
      console_log_def running_def)

subsection \<open>Independence of the code argument\<close>

text \<open>
  Claim C10.  Two \<open>analyze-code\<close> requests that agree on \<open>language\<close>,
  two \<open>generate-tests\<close> requests that agree on \<open>framework\<close>, and any two
  \<open>optimize-performance\<close> requests get the same response: \<open>code\<close>,
  \<open>metrics\<close> and every other argument never change it.
\<close>

theorem output_independent_of_code:
  "(get_arg a ''language'' = get_arg b ''language'' \<longrightarrow>
      call_tool ''analyze-code'' a = call_tool ''analyze-code'' b) \<and>
   (get_arg a ''framework'' = get_arg b ''framework'' \<longrightarrow>
      call_tool ''generate-tests'' a = call_tool ''generate-tests'' b) \<and>
   call_tool ''optimize-performance'' a = call_tool ''optimize-performance'' b"
  by (simp add: call_tool_def)

text \<open>
  Claim C10 at requests that differ in \<open>code\<close>, in the order of their arguments
  and in \<open>metrics\<close>.
\<close>

theorem output_independent_of_code_witness:
  "get_arg (Some [(''code'', JStr ''x''), (''language'', JStr ''python'')]) ''language'' =
     get_arg (Some [(''language'', JStr ''python''), (''code'', JStr ''while(1){}'')]) ''language'' \<and>
   call_tool ''analyze-code'' (Some [(''code'', JStr ''x''), (''language'', JStr ''python'')]) =
     call_tool ''analyze-code'' (Some [(''language'', JStr ''python''), (''code'', JStr ''while(1){}'')]) \<and>
   get_arg (Some [(''code'', JStr ''x'')]) ''framework'' = get_arg None ''framework'' \<and>
   call_tool ''generate-tests'' (Some [(''code'', JStr ''x'')]) = call_tool ''generate-tests'' None \<and>
   call_tool ''optimize-performance'' (Some [(''code'', JStr ''x''), (''metrics'', JArr [JStr ''memory''])]) =
     call_tool ''optimize-performance'' (Some [(''code'', JNum ''7'')])"
proof -
  have h1: "get_arg (Some [(''code'', JStr ''x''), (''language'', JStr ''python'')]) ''language'' =
     get_arg (Some [(''language'', JStr ''python''), (''code'', JStr ''while(1){}'')]) ''language''"
    by (simp add: get_arg_def)
  have h2: "get_arg (Some [(''code'', JStr ''x'')]) ''framework'' = get_arg None ''framework''"
    by (simp add: get_arg_def)
  from output_independent_of_code
         [of "Some [(''code'', JStr ''x''), (''language'', JStr ''python'')]"
             "Some [(''language'', JStr ''python''), (''code'', JStr ''while(1){}'')]"]
       output_independent_of_code [of "Some [(''code'', JStr ''x'')]" None]
       output_independent_of_code
         [of "Some [(''code'', JStr ''x''), (''metrics'', JArr [JStr ''memory''])]"
             "Some [(''code'', JNum ''7'')]"]
       h1 h2
  show ?thesis by blast
qed

end
